theory Spec2Isabelle
  imports Complex_Main "HOL-Library.Word" "HOL-Library.While_Combinator"
begin

section \<open>Python values shared by the modules\<close>

text \<open>
  A Python \<open>str\<close> is modelled as a \<open>string\<close>: a list of characters with code points
  below 256. On such strings \<open>str.lower\<close> moves the capitals \<open>A\<close>..\<open>Z\<close> and the Latin-1
  capitals (192..222 without the multiplication sign 215) up by 32 and leaves the rest,
  and the characters \<open>str.strip\<close> removes are 9..13, 28..32, 133 and 160. Message
  texts that the source writes in Chinese are abbreviated to ASCII tags in angle
  brackets.
\<close>

definition lower_char :: "char \<Rightarrow> char" where
  "lower_char c =
     (let n = (of_char c :: nat)
      in if (65 \<le> n \<and> n \<le> 90) \<or> (192 \<le> n \<and> n \<le> 222 \<and> n \<noteq> 215)
         then char_of (n + 32) else c)"

definition lower :: "string \<Rightarrow> string" where
  "lower s = map lower_char s"

definition isspace :: "char \<Rightarrow> bool" where
  "isspace c =
     (let n = (of_char c :: nat)
      in (9 \<le> n \<and> n \<le> 13) \<or> (28 \<le> n \<and> n \<le> 32) \<or> n = 133 \<or> n = 160)"

definition strip :: "string \<Rightarrow> string" where
  "strip s = rev (dropWhile isspace (rev (dropWhile isspace s)))"

text \<open>\<open>s.split(sep)\<close> for a one-character separator: never an empty list.\<close>

fun split :: "char \<Rightarrow> string \<Rightarrow> string list" where
  "split sep [] = [[]]"
| "split sep (c # cs) =
     (if c = sep then [] # split sep cs
      else (c # hd (split sep cs)) # tl (split sep cs))"

definition startswith :: "string \<Rightarrow> string \<Rightarrow> bool" where
  "startswith s p = (take (length p) s = p)"

text \<open>
  Exceptions are values. \<open>HTTPException\<close> carries its status code and its detail; a detail
  that the source formats from a caught exception (\<open>str(e)\<close>) carries that exception.
\<close>

datatype exn =
    IndexError
  | KeyError
  | TypeError
  | AttributeError
  | NameError
  | OSError
  | JSONDecodeError
  | RecursionError
  | RequestException
  | APIError
  | HTTPException nat detail
and detail =
    ClientNotInitialised
  | NoContentProvided
  | FileTooLarge nat
  | UnsupportedFileType string
  | FileProcessingFailed exn
  | GeminiCallFailed exn
  | ServerError exn
  | ReportFormatError string
  | AgentConnectionFailed exn
  | AgentFormatError
  | InternalError exn
  | AgentError exn

text \<open>\<open>xs[-1]\<close>: the last element, \<open>IndexError\<close> on an empty list.\<close>

definition index_last :: "'a list \<Rightarrow> exn + 'a" where
  "index_last xs = (case xs of [] \<Rightarrow> Inl IndexError | _ # _ \<Rightarrow> Inr (last xs))"

section \<open>\<open>get_mime_type\<close>\<close>

text \<open>
  \<open>src/single_agent.py\<close>, lines 80-89. The extension is the lowercased last piece of the
  file name split at dots; every audio extension gives \<open>audio/wav\<close>.
\<close>

definition get_mime_type :: "string \<Rightarrow> exn + string" where
  "get_mime_type filename =
     (case index_last (split CHR ''.'' filename) of
        Inl e \<Rightarrow> Inl e
      | Inr piece \<Rightarrow>
          (let ext = lower piece in
           if ext \<in> set [''jpg'', ''jpeg''] then Inr ''image/jpeg''
           else if ext = ''png'' then Inr ''image/png''
           else if ext \<in> set [''wav'', ''mp3'', ''flac'', ''m4a'', ''webm'']
             then Inr ''audio/wav''
           else Inr ''application/octet-stream''))"

text \<open>
  \<open>src/.ipynb_checkpoints/single_as_multi-checkpoint.py\<close>, lines 114-124: the same
  function except for the audio branch, which returns \<open>f"audio/{ext}"\<close>.
\<close>

definition get_mime_type_single_as_multi :: "string \<Rightarrow> exn + string" where
  "get_mime_type_single_as_multi filename =
     (case index_last (split CHR ''.'' filename) of
        Inl e \<Rightarrow> Inl e
      | Inr piece \<Rightarrow>
          (let ext = lower piece in
           if ext \<in> set [''jpg'', ''jpeg''] then Inr ''image/jpeg''
           else if ext = ''png'' then Inr ''image/png''
           else if ext \<in> set [''wav'', ''mp3'', ''flac'', ''m4a'', ''webm'']
             then Inr (''audio/'' @ ext)
           else Inr ''application/octet-stream''))"

text \<open>The text after the last dot of a name, or the whole name when it has no dot.\<close>

definition after_last_dot :: "string \<Rightarrow> string" where
  "after_last_dot s = rev (takeWhile (\<lambda>c. c \<noteq> CHR ''.'') (rev s))"

section \<open>\<open>src/single_agent.py\<close>: prompt state and the checking endpoint\<close>

type_synonym bytes = "8 word list"

record upload_file =
  filename :: string
  file_bytes :: bytes

text \<open>
  One element of the \<open>contents\<close> list handed to the model: a text, the name of a file
  uploaded to the service, or inline bytes with their MIME type (\<open>Part.from_bytes\<close>).
\<close>

datatype content_part = TextPart string | FilePart string | BytesPart bytes string

record generate_request =
  model :: string
  contents :: "content_part list"
  system_instruction :: string
  temperature :: rat

text \<open>
  The Gemini client is a collaborator: each operation answers with a value or with the
  exception it raises. \<open>open_and_upload_image\<close> is \<open>Image.open\<close> followed by
  \<open>client.files.upload\<close>; an upload answers with the name of the stored file;
  \<open>generate_content\<close> answers with \<open>response.text\<close>, which may be \<open>None\<close>.
\<close>

record gemini_client =
  open_and_upload_image :: "bytes \<Rightarrow> exn + string"
  upload_audio :: "bytes \<Rightarrow> string \<Rightarrow> exn + string"
  generate_content :: "generate_request \<Rightarrow> exn + string option"
  files_delete :: "string \<Rightarrow> exn option"

text \<open>The calls a request makes on the client, in order; an upload is listed once it is attempted.\<close>

datatype call =
    UploadImage bytes
  | UploadAudio bytes string
  | GenerateContent generate_request
  | DeleteFile string

text \<open>The module's globals: \<open>client\<close> (\<open>None\<close> when its construction failed) and \<open>SYSTEM_PROMPT\<close>.\<close>

record globals =
  client :: "gemini_client option"
  SYSTEM_PROMPT :: string

definition MODEL_NAME :: string where
  "MODEL_NAME = ''gemini-2.5-flash''"

text \<open>\<open>update_prompt\<close> (lines 105-112) assigns the global and answers with the new length.\<close>

definition update_prompt :: "globals \<Rightarrow> string \<Rightarrow> globals \<times> (string \<times> nat)" where
  "update_prompt g new_prompt =
     (let g' = g\<lparr>SYSTEM_PROMPT := new_prompt\<rparr>
      in (g', (''<prompt updated>'', length (SYSTEM_PROMPT g'))))"

definition get_prompt :: "globals \<Rightarrow> string" where
  "get_prompt g = SYSTEM_PROMPT g"

text \<open>Truth value of an optional form text: \<open>None\<close> and the empty string are false.\<close>

definition truthy :: "string option \<Rightarrow> bool" where
  "truthy t = (case t of None \<Rightarrow> False | Some s \<Rightarrow> s \<noteq> [])"

text \<open>\<open>if uploaded_file: client.files.delete(name=uploaded_file.name)\<close>\<close>

definition delete_uploaded :: "gemini_client \<Rightarrow> string option \<Rightarrow> call list \<times> exn option" where
  "delete_uploaded c uploaded_file =
     (case uploaded_file of
        None \<Rightarrow> ([], None)
      | Some name \<Rightarrow> ([DeleteFile name], files_delete c name))"

text \<open>
  The two handlers of step 5 (lines 216-226): an \<open>APIError\<close> deletes the uploaded file
  and becomes a 500; any other exception becomes a 500 at once. An exception raised by the
  deletion inside the handler leaves the function as it is.
\<close>

definition gemini_handlers :: "gemini_client \<Rightarrow> string option \<Rightarrow> exn \<Rightarrow> call list \<times> (exn + string)" where
  "gemini_handlers c uploaded_file e =
     (if e = APIError then
        (case delete_uploaded c uploaded_file of
           (ds, Some e') \<Rightarrow> (ds, Inl e')
         | (ds, None) \<Rightarrow> (ds, Inl (HTTPException 500 (GeminiCallFailed e))))
      else ([], Inl (HTTPException 500 (ServerError e))))"

text \<open>
  Steps 4 to 6 (lines 187-214): the user prompt goes last in the contents, the
  configuration reads the global \<open>SYSTEM_PROMPT\<close> at this moment, the report is the
  stripped reply, and the uploaded file is deleted before returning.
\<close>

definition call_gemini ::
  "globals \<Rightarrow> gemini_client \<Rightarrow> content_part list \<Rightarrow> string \<Rightarrow> string option
     \<Rightarrow> call list \<times> (exn + string)" where
  "call_gemini g c content_parts user_prompt_text uploaded_file =
     (let final_content = content_parts @ [TextPart user_prompt_text];
          request = \<lparr>model = MODEL_NAME, contents = final_content,
                     system_instruction = SYSTEM_PROMPT g, temperature = 2 / 10\<rparr>
      in case generate_content c request of
           Inl e \<Rightarrow>
             (case gemini_handlers c uploaded_file e of
                (ds, r) \<Rightarrow> (GenerateContent request # ds, r))
         | Inr None \<Rightarrow>
             ([GenerateContent request], Inl (HTTPException 500 (ServerError AttributeError)))
         | Inr (Some reply) \<Rightarrow>
             (case delete_uploaded c uploaded_file of
                (ds, None) \<Rightarrow> (GenerateContent request # ds, Inr (strip reply))
              | (ds, Some e) \<Rightarrow>
                  (case gemini_handlers c uploaded_file e of
                     (ds', r) \<Rightarrow> (GenerateContent request # ds @ ds', r))))"

definition MAX_FILE_BYTES :: nat where
  "MAX_FILE_BYTES = 50 * (1024 * 1024)"

text \<open>
  \<open>check_scam_report\<close> (lines 115-226). The result is the list of calls made on the
  client and either the exception that leaves the function or the report. The size test
  \<open>len(file_bytes) / (1024 * 1024) > 50\<close> is exact on floats, so it is a comparison of
  the length with \<open>MAX_FILE_BYTES\<close>. Inside the \<open>try\<close> of step 3 every exception, the
  400 for an unsupported type included, is turned into a 500.
\<close>

definition check_scam_report ::
  "globals \<Rightarrow> string option \<Rightarrow> upload_file option \<Rightarrow> call list \<times> (exn + string)" where
  "check_scam_report g text file =
     (case client g of
        None \<Rightarrow> ([], Inl (HTTPException 500 ClientNotInitialised))
      | Some c \<Rightarrow>
          if \<not> truthy text \<and> file = None then ([], Inl (HTTPException 400 NoContentProvided))
          else
            (let content_parts = (if truthy text then [TextPart (the text)] else []);
                user_prompt_text =
                  ''<report request>'' @
                  (if truthy text then ''<text content>: '' @ the text @ [CHR 0x0A] else [])
            in (case file of
                 None \<Rightarrow> call_gemini g c content_parts user_prompt_text None
               | Some f \<Rightarrow>
                   (case get_mime_type (filename f) of
                      Inl e \<Rightarrow> ([], Inl e)
                    | Inr mime_type \<Rightarrow>
                        if length (file_bytes f) > MAX_FILE_BYTES
                        then ([], Inl (HTTPException 413 (FileTooLarge (length (file_bytes f)))))
                        else if startswith mime_type ''image/'' then
                          (case open_and_upload_image c (file_bytes f) of
                             Inl e \<Rightarrow>
                               ([UploadImage (file_bytes f)],
                                Inl (HTTPException 500 (FileProcessingFailed e)))
                           | Inr name \<Rightarrow>
                               (case call_gemini g c (content_parts @ [FilePart name])
                                       (user_prompt_text @ ''<image uploaded>'') (Some name) of
                                  (cs, r) \<Rightarrow> (UploadImage (file_bytes f) # cs, r)))
                        else if startswith mime_type ''audio/'' then
                          (case upload_audio c (file_bytes f) mime_type of
                             Inl e \<Rightarrow>
                               ([UploadAudio (file_bytes f) mime_type],
                                Inl (HTTPException 500 (FileProcessingFailed e)))
                           | Inr name \<Rightarrow>
                               (case call_gemini g c (content_parts @ [FilePart name])
                                       (user_prompt_text @ ''<audio uploaded>'') (Some name) of
                                  (cs, r) \<Rightarrow> (UploadAudio (file_bytes f) mime_type # cs, r)))
                        else
                          ([], Inl (HTTPException 500 (FileProcessingFailed
                                 (HTTPException 400 (UnsupportedFileType mime_type)))))))))"

text \<open>The model requests among the calls of a run.\<close>

fun generate_requests :: "call list \<Rightarrow> generate_request list" where
  "generate_requests [] = []"
| "generate_requests (GenerateContent r # cs) = r # generate_requests cs"
| "generate_requests (_ # cs) = generate_requests cs"

text \<open>A client for examples: it answers every model request with the request's system instruction.\<close>

definition echo_client :: gemini_client where
  "echo_client =
     \<lparr>open_and_upload_image = (\<lambda>_. Inr ''files/1''),
      upload_audio = (\<lambda>_ _. Inr ''files/1''),
      generate_content = (\<lambda>r. Inr (Some (system_instruction r))),
      files_delete = (\<lambda>_. None)\<rparr>"

section \<open>JSON values and Python subscripting\<close>

text \<open>
  The value \<open>json.loads\<close> returns: a number keeps its numeral as written, a dictionary
  is a list of pairs with distinct keys.
\<close>

datatype json =
    JNull
  | JBool bool
  | JNum string
  | JStr string
  | JArr "json list"
  | JObj "(string \<times> json) list"

datatype key = StrKey string | IntKey int

text \<open>\<open>xs[i]\<close> on a sequence: a negative index counts from the end.\<close>

definition index_list :: "'a list \<Rightarrow> int \<Rightarrow> exn + 'a" where
  "index_list xs i =
     (let n = int (length xs); j = (if i < 0 then i + n else i)
      in if 0 \<le> j \<and> j < n then Inr (xs ! nat j) else Inl IndexError)"

text \<open>
  \<open>v[k]\<close>: a dictionary raises \<open>KeyError\<close> for a key it does not hold (an integer is
  never a key of a parsed object), a list and a string take integers only, and
  \<open>None\<close>, booleans and numbers cannot be subscripted.
\<close>

fun subscript :: "json \<Rightarrow> key \<Rightarrow> exn + json" where
  "subscript (JObj kvs) (StrKey k) =
     (case map_of kvs k of None \<Rightarrow> Inl KeyError | Some v \<Rightarrow> Inr v)"
| "subscript (JObj kvs) (IntKey i) = Inl KeyError"
| "subscript (JArr xs) (IntKey i) = index_list xs i"
| "subscript (JArr xs) (StrKey k) = Inl TypeError"
| "subscript (JStr s) (IntKey i) =
     (case index_list s i of Inl e \<Rightarrow> Inl e | Inr c \<Rightarrow> Inr (JStr [c]))"
| "subscript (JStr s) (StrKey k) = Inl TypeError"
| "subscript JNull k = Inl TypeError"
| "subscript (JBool b) k = Inl TypeError"
| "subscript (JNum n) k = Inl TypeError"

text \<open>Sequencing of steps that may raise.\<close>

definition then_do :: "exn + 'a \<Rightarrow> ('a \<Rightarrow> exn + 'b) \<Rightarrow> exn + 'b" where
  "then_do r f = (case r of Inl e \<Rightarrow> Inl e | Inr x \<Rightarrow> f x)"




section \<open>\<open>single_as_multi\<close>: the checking endpoint and its reply parser\<close>




text \<open>
  The outer handlers (lines 279-290) enclose the model call and the parsing: an
  \<open>APIError\<close> and every other exception, the 500 of the inner handler included, leave as
  a 500.
\<close>

definition outer_handlers :: "exn \<Rightarrow> exn" where
  "outer_handlers e =
     (if e = APIError then HTTPException 500 (GeminiCallFailed e)
      else HTTPException 500 (ServerError e))"









section \<open>\<open>get_prompt\<close> and \<open>fraud_back-end\<close>: the coordinating endpoint\<close>

definition worker_count :: nat where
  "worker_count = 5"

text \<open>
  \<open>get_manager_agent_prompts\<close> returns three fixed texts (the system prompt, the header
  for a task from the boss, the header for worker reports); they are abbreviated.
\<close>

definition get_manager_agent_prompts :: "string \<times> string \<times> string" where
  "get_manager_agent_prompts =
     (''<manager system prompt>'', ''<task from the boss>'', ''<worker reports>'')"

record media_upload =
  media_filename :: "string option"
  content_type :: "string option"
  media_bytes :: bytes

record agent_payload =
  system_prompt :: string
  user_prompt :: string

text \<open>
  What the endpoint uses from outside: the tables of \<open>mimetypes\<close>, the 16 hexadecimal
  digits of \<open>os.urandom(8).hex()\<close>, writing the upload to a path (\<open>None\<close> when it
  succeeds), the POST to the agent service followed by \<open>raise_for_status\<close> and
  \<open>response.json()\<close> (the parsed body, or the exception raised), and \<open>json.dumps\<close>.
\<close>

record runtime =
  guess_extension :: "string \<Rightarrow> string option"
  guess_type :: "string \<Rightarrow> string option"
  urandom_hex :: string
  store :: "string \<Rightarrow> bytes \<Rightarrow> exn option"
  post :: "agent_payload \<Rightarrow> exn + json"
  dumps :: "json \<Rightarrow> string"

datatype agent_call = StoreFile string | PostAgent agent_payload

text \<open>\<open>detect_media_type\<close> (\<open>get_prompt\<close>, lines 353-364).\<close>

definition detect_media_type :: "(string \<Rightarrow> string option) \<Rightarrow> string \<Rightarrow> string" where
  "detect_media_type guess file_path =
     (case guess file_path of
        None \<Rightarrow> ''unknown''
      | Some mime \<Rightarrow>
          if mime = [] then ''unknown''
          else if startswith mime ''image/'' then ''image''
          else if startswith mime ''video/'' then ''video''
          else ''unknown'')"

text \<open>
  The import of \<open>genai_hub_digissl\<close> is commented out (\<open>get_prompt\<close>, line 2), so
  evaluating the name in \<open>describe_media\<close> raises \<open>NameError\<close>.
\<close>

definition genai_hub_digissl_describe :: "string \<Rightarrow> string \<Rightarrow> exn + string" where
  "genai_hub_digissl_describe prompt media_paths = Inl NameError"

text \<open>
  \<open>describe_media\<close> (lines 367-393): the description is appended only when the
  describer returns; its exceptions are logged and dropped.
\<close>

definition describe_media :: "(string \<Rightarrow> string option) \<Rightarrow> string \<Rightarrow> string" where
  "describe_media guess media_paths =
     (let final_text = [] in
      if media_paths \<noteq> [] then
        (let media_type = detect_media_type guess media_paths in
         if media_type = ''image'' then
           (case genai_hub_digissl_describe ''<describe media>'' media_paths of
              Inl e \<Rightarrow> final_text
            | Inr desc \<Rightarrow> final_text @ [CHR 0x0A] @ ''[Image Description]: '' @ desc)
         else if media_type = ''video'' then
           (case genai_hub_digissl_describe ''<describe media>'' media_paths of
              Inl e \<Rightarrow> final_text
            | Inr desc \<Rightarrow> final_text @ [CHR 0x0A] @ ''[Video Description]: '' @ desc)
         else final_text)
      else final_text)"

text \<open>\<open>x in v\<close> for a string \<open>x\<close>: a key of a dictionary, an element of a list, a substring of a string.\<close>

fun is_infix :: "string \<Rightarrow> string \<Rightarrow> bool" where
  "is_infix p [] = (p = [])"
| "is_infix p (c # cs) = (startswith (c # cs) p \<or> is_infix p cs)"

fun contains :: "json \<Rightarrow> string \<Rightarrow> exn + bool" where
  "contains (JObj kvs) k = Inr (k \<in> set (map fst kvs))"
| "contains (JArr xs) k = Inr (JStr k \<in> set xs)"
| "contains (JStr s) k = Inr (is_infix k s)"
| "contains JNull k = Inl TypeError"
| "contains (JBool b) k = Inl TypeError"
| "contains (JNum n) k = Inl TypeError"

text \<open>
  \<open>call_agent_system\<close> (\<open>fraud_back-end\<close>, lines 26-59): one POST; a
  \<open>RequestException\<close> becomes a 503, a \<open>JSONDecodeError\<close> or \<open>KeyError\<close> a 500, and any
  other exception leaves the function as it is.
\<close>

definition call_agent_system :: "runtime \<Rightarrow> string \<Rightarrow> agent_call list \<times> (exn + json)" where
  "call_agent_system rt final_prompt =
     (let manager_system_prompt = fst get_manager_agent_prompts;
          payload = \<lparr>system_prompt = manager_system_prompt, user_prompt = final_prompt\<rparr>;
          attempt =
            then_do (post rt payload) (\<lambda>agent_result.
            then_do (contains agent_result ''report'') (\<lambda>present.
              if present then subscript agent_result (StrKey ''report'')
              else Inr (JStr (''<report field missing>'' @ dumps rt agent_result))))
      in ([PostAgent payload],
          (case attempt of
             Inl e \<Rightarrow>
               if e = RequestException then Inl (HTTPException 503 (AgentConnectionFailed e))
               else if e = JSONDecodeError \<or> e = KeyError
               then Inl (HTTPException 500 AgentFormatError)
               else Inl e
           | Inr report \<Rightarrow> Inr report)))"

definition NO_TEXT_CLAIM :: string where
  "NO_TEXT_CLAIM = ''<the user gave no plain-text claim>''"

text \<open>
  The media block of \<open>check_scam_report\<close> (lines 91-108): the extension comes from the
  content type unless the file name has a dot, the upload is written under
  \<open>temp_uploads\<close>, and the description is asked for. \<open>guess_extension\<close> of a missing
  content type raises \<open>AttributeError\<close>.
\<close>

definition describe_upload :: "runtime \<Rightarrow> media_upload \<Rightarrow> agent_call list \<times> (exn + string)" where
  "describe_upload rt uploaded_file =
     (case content_type uploaded_file of
        None \<Rightarrow> ([], Inl AttributeError)
      | Some ct \<Rightarrow>
          (let guessed = (case guess_extension rt ct of
                            None \<Rightarrow> ''.bin''
                          | Some ext \<Rightarrow> if ext = [] then ''.bin'' else ext)
           in case (case media_filename uploaded_file of
                      None \<Rightarrow> Inr guessed
                    | Some name \<Rightarrow>
                        if name \<noteq> [] \<and> CHR ''.'' \<in> set name
                        then then_do (index_last (split CHR ''.'' name)) (\<lambda>piece. Inr (''.'' @ piece))
                        else Inr guessed) of
                Inl e \<Rightarrow> ([], Inl e)
              | Inr file_extension \<Rightarrow>
                  (let uploaded_path = ''temp_uploads/'' @ urandom_hex rt @ file_extension
                   in ([StoreFile uploaded_path],
                       (case store rt uploaded_path (media_bytes uploaded_file) of
                          Some e \<Rightarrow> Inl e
                        | None \<Rightarrow> Inr (describe_media (guess_type rt) uploaded_path))))))"

text \<open>The handler of \<open>check_scam_report\<close> (lines 124-128): an \<open>HTTPException\<close> is raised again, anything else becomes a 500.\<close>

definition reraise :: "exn \<Rightarrow> exn" where
  "reraise e = (case e of HTTPException code d \<Rightarrow> e | _ \<Rightarrow> HTTPException 500 (InternalError e))"

text \<open>
  \<open>check_scam_report\<close> of \<open>fraud_back-end\<close> (lines 64-133). The result is the calls made
  (writing the upload, the POST) and the exception or the report. The removal of the
  stored file in \<open>finally\<close> does not change the result and is left out.
\<close>

definition check_scam_report_fraud_back_end ::
  "runtime \<Rightarrow> string option \<Rightarrow> media_upload option \<Rightarrow> agent_call list \<times> (exn + json)" where
  "check_scam_report_fraud_back_end rt text media_file =
     (if \<not> (truthy text \<or> media_file \<noteq> None)
      then ([], Inl (HTTPException 400 NoContentProvided))
      else
        (let claim_text = (if truthy text then the text else NO_TEXT_CLAIM)
         in case (case media_file of
                    None \<Rightarrow> ([], Inr [])
                  | Some uploaded_file \<Rightarrow> describe_upload rt uploaded_file) of
              (cs, Inl e) \<Rightarrow> (cs, Inl (reraise e))
            | (cs, Inr media_description) \<Rightarrow>
                (let user_prompt_from_boss_template = fst (snd get_manager_agent_prompts);
                     claim_section = ''[CLAIM FROM BOSS]'' @ [CHR 0x0A] @ claim_text @ [CHR 0x0A];
                     media_section =
                       ''[SUPPLEMENTAL MEDIA DATA]'' @ media_description @ [CHR 0x0A];
                     final_input_task = claim_section @ [CHR 0x0A] @ media_section;
                     final_prompt = user_prompt_from_boss_template @ final_input_task
                 in case call_agent_system rt final_prompt of
                      (cs', Inl e) \<Rightarrow> (cs @ cs', Inl (reraise e))
                    | (cs', Inr markdown_report) \<Rightarrow> (cs @ cs', Inr markdown_report))))"

text \<open>An agent service that answers with a report, and a screenshot, for examples.\<close>

definition obliging_runtime :: runtime where
  "obliging_runtime =
     \<lparr>guess_extension = (\<lambda>_. Some ''.png''),
      guess_type = (\<lambda>_. Some ''image/png''),
      urandom_hex = ''00112233aabbccdd'',
      store = (\<lambda>_ _. None),
      post = (\<lambda>_. Inr (JObj [(''report'', JStr ''# Report''), (''status'', JStr ''success'')])),
      dumps = (\<lambda>_. [])\<rparr>"

definition screenshot :: media_upload where
  "screenshot =
     \<lparr>media_filename = Some ''shot.png'', content_type = Some ''image/png'', media_bytes = []\<rparr>"

section \<open>The orchestration protocol of the specification\<close>

text \<open>
  The repository holds the prompts of the four roles and the endpoints above; the
  coordination logic itself (proposition tracker, review gate, round coordinator,
  facade) is described in the specification only. The definitions of this section
  follow the specification's sections 3, 4 and 7.
\<close>

text \<open>Modelled from the spec: the verdict of a proposition and of a session (section 3), absent from the code.\<close>

datatype verdict = TRUE | FALSE | MIXED | UNDETERMINED | PENDING

text \<open>Modelled from the spec: an evidence reference with its citation fields and scope tags (section 3), absent from the code.\<close>

record citation =
  title :: string
  publisher_or_author :: string
  url :: string
  retrieved_at :: string
  quote_short :: string
  scope_tags :: "string list"

text \<open>Modelled from the spec: a Proposition (section 3), absent from the code.\<close>

record Proposition =
  proposition_id :: nat
  proposition_text :: string
  proposition_verdict :: verdict
  evidence_refs :: "citation list"

text \<open>
  Modelled from the spec: \<open>finalVerdict\<close> of the Proposition Tracker (section 4.2),
  absent from the code. The rule is read in its order: all \<open>TRUE\<close>; else any \<open>FALSE\<close>;
  else both \<open>TRUE\<close> and \<open>UNDETERMINED\<close> occur (and no \<open>FALSE\<close>); else \<open>UNDETERMINED\<close>.
  The second component lists the verdict of every proposition.
\<close>

definition finalVerdict :: "Proposition list \<Rightarrow> verdict \<times> (nat \<times> verdict) list" where
  "finalVerdict ps =
     (let vs = map proposition_verdict ps;
          overall =
            (if list_all (\<lambda>v. v = TRUE) vs then TRUE
             else if list_ex (\<lambda>v. v = FALSE) vs then FALSE
             else if list_ex (\<lambda>v. v = TRUE) vs \<and> list_ex (\<lambda>v. v = UNDETERMINED) vs then MIXED
             else UNDETERMINED)
      in (overall, map (\<lambda>p. (proposition_id p, proposition_verdict p)) ps))"

text \<open>Modelled from the spec: a Submission (section 3), absent from the code.\<close>

record submission =
  short_answer :: string
  findings :: string
  evidence :: "citation list"

text \<open>
  Modelled from the spec: the Review Verdict (section 3) with the forced approval of
  section 4.4, absent from the code. \<open>APPROVE\<close> carries the digest, the other two the
  issue list.
\<close>

datatype review_verdict =
    APPROVE string
  | REVISE "string list"
  | APPROVE_WITH_CAVEAT "string list"

text \<open>Modelled from the spec: the status of a Task and the Task (section 3), absent from the code.\<close>

datatype task_status = ASSIGNED | SUBMITTED | APPROVED | REVISION_REQUESTED

record task =
  task_id :: nat
  round_number :: nat
  worker_slot :: nat
  task_text :: string
  status :: task_status

text \<open>
  Modelled from the spec: the configuration of a session (sections 3 and 4: round cap,
  default 3; revision cap, default 2; worker count, default 5), absent from the code
  except for \<open>worker_count\<close>.
\<close>

record config =
  roundCap :: nat
  revisionCap :: nat
  workerCount :: nat

definition default_config :: config where
  "default_config = \<lparr>roundCap = 3, revisionCap = 2, workerCount = worker_count\<rparr>"

text \<open>
  Modelled from the spec: the protocol checks of the Review Gate (section 4.4: at least
  two sources, the citation fields present, scope tags present), absent from the code.
  The result lists what is missing.
\<close>

definition protocol_issues :: "submission \<Rightarrow> string list" where
  "protocol_issues s =
     (if length (evidence s) < 2 then [''fewer than two sources''] else []) @
     (if list_ex (\<lambda>c. title c = [] \<or> publisher_or_author c = [] \<or> url c = [] \<or>
                       retrieved_at c = [] \<or> quote_short c = []) (evidence s)
      then [''citation field missing''] else []) @
     (if list_ex (\<lambda>c. scope_tags c = []) (evidence s) then [''scope tags missing''] else [])"

text \<open>
  Modelled from the spec: \<open>review\<close> of the Review Gate (section 4.4), absent from the
  code. The judgment of the reviewing collaborator is taken together with the protocol
  checks; a request for revision on a task already revised up to the cap is overridden
  to \<open>APPROVE_WITH_CAVEAT\<close> with the same issues.
\<close>

definition review ::
  "nat \<Rightarrow> (submission \<Rightarrow> review_verdict) \<Rightarrow> nat \<Rightarrow> submission \<Rightarrow> review_verdict" where
  "review cap reviewer revisions s =
     (let issues = protocol_issues s;
          requested =
            (case reviewer s of
               REVISE found \<Rightarrow> REVISE (issues @ found)
             | APPROVE digest \<Rightarrow> if issues = [] then APPROVE digest else REVISE issues
             | APPROVE_WITH_CAVEAT found \<Rightarrow>
                 if issues = [] then APPROVE_WITH_CAVEAT found else REVISE (issues @ found))
      in case requested of
           REVISE unresolved \<Rightarrow>
             if cap \<le> revisions then APPROVE_WITH_CAVEAT unresolved else REVISE unresolved
         | APPROVE digest \<Rightarrow> APPROVE digest
         | APPROVE_WITH_CAVEAT found \<Rightarrow> APPROVE_WITH_CAVEAT found)"

text \<open>
  Modelled from the spec: what a Task ends with (sections 3 and 4.4), absent from the
  code: the task, the terminal verdict, the number of revisions requested and every
  submission in order.
\<close>

record task_outcome =
  final_task :: task
  terminal_verdict :: review_verdict
  revision_count :: nat
  submissions :: "submission list"

text \<open>
  Modelled from the spec: the Worker to Supervisor cycle of one Task (sections 4.4 and
  5), absent from the code. The worker answers the task (with the issues of the last
  review, if any), the gate reviews, and a \<open>REVISE\<close> starts the next revision.
\<close>

function review_cycle ::
  "nat \<Rightarrow> (task \<Rightarrow> string list \<Rightarrow> submission) \<Rightarrow> (submission \<Rightarrow> review_verdict)
     \<Rightarrow> task \<Rightarrow> nat \<Rightarrow> string list \<Rightarrow> submission list \<Rightarrow> task_outcome" where
  "review_cycle cap worker reviewer t revisions issues history =
     (case review cap reviewer revisions (worker t issues) of
        REVISE unresolved \<Rightarrow>
          review_cycle cap worker reviewer (t\<lparr>status := REVISION_REQUESTED\<rparr>)
            (Suc revisions) unresolved (history @ [worker t issues])
      | APPROVE digest \<Rightarrow>
          \<lparr>final_task = t\<lparr>status := APPROVED\<rparr>, terminal_verdict = APPROVE digest,
           revision_count = revisions, submissions = history @ [worker t issues]\<rparr>
      | APPROVE_WITH_CAVEAT unresolved \<Rightarrow>
          \<lparr>final_task = t\<lparr>status := APPROVED\<rparr>,
           terminal_verdict = APPROVE_WITH_CAVEAT unresolved,
           revision_count = revisions, submissions = history @ [worker t issues]\<rparr>)"
  by pat_completeness auto
termination
proof (relation "measure (\<lambda>(cap, worker, reviewer, t, revisions, issues, history). cap - revisions)")
  show "wf (measure (\<lambda>(cap, worker, reviewer, t, revisions, issues, history). cap - revisions))"
    by simp
next
  fix cap :: nat and worker :: "task \<Rightarrow> string list \<Rightarrow> submission"
    and reviewer :: "submission \<Rightarrow> review_verdict" and t :: task and revisions :: nat
    and issues :: "string list" and history :: "submission list" and unresolved :: "string list"
  assume "review cap reviewer revisions (worker t issues) = REVISE unresolved"
  then have "revisions < cap"
    by (auto simp: review_def Let_def split: review_verdict.splits if_splits)
  then show "((cap, worker, reviewer, t\<lparr>status := REVISION_REQUESTED\<rparr>, Suc revisions,
               unresolved, history @ [worker t issues]),
              (cap, worker, reviewer, t, revisions, issues, history))
             \<in> measure (\<lambda>(cap, worker, reviewer, t, revisions, issues, history). cap - revisions)"
    by simp
qed

text \<open>Modelled from the spec: the error taxonomy (section 7), absent from the code.\<close>

datatype session_error =
    SchemaError string
  | ExtractionError
  | DispatchError
  | RevisionCapExceeded
  | RoundCapExceeded
  | CollaboratorFailure string

text \<open>Modelled from the spec: the coverage report (section 4.2), absent from the code; each field lists proposition identifiers.\<close>

record coverage =
  covered :: "nat list"
  conflicting :: "nat list"
  unresolved :: "nat list"

text \<open>
  Modelled from the spec: what the Round Coordinator calls and the specification gives
  by contract only (sections 4.2, 4.3 and 6), absent from the code: the Decomposer,
  \<open>planRound\<close> of the Task Dispatcher (propositions, round number and gap hints to a
  task list or a \<open>DispatchError\<close>), the WorkerExecutor (a task and the issues of the
  last review to a submission), the SupervisorReviewer, the recording of a round's
  approved findings in the tracker, and \<open>coverageReport\<close>.
\<close>

record parts =
  decompose :: "string \<Rightarrow> Proposition list"
  planRound :: "Proposition list \<Rightarrow> nat \<Rightarrow> coverage option \<Rightarrow> session_error + task list"
  execute :: "task \<Rightarrow> string list \<Rightarrow> submission"
  supervise :: "submission \<Rightarrow> review_verdict"
  recordFindings :: "Proposition list \<Rightarrow> task_outcome list \<Rightarrow> Proposition list"
  coverageReport :: "Proposition list \<Rightarrow> coverage"

text \<open>Modelled from the spec: the states of the Round Coordinator (section 4.5), absent from the code.\<close>

datatype phase = PLANNING | DISPATCHED | AWAITING_REVIEWS | AGGREGATING | CONTINUE | FINALIZING

text \<open>
  Modelled from the spec: the Round Coordinator's view of a session (sections 3 and
  4.5), absent from the code: the state, the round number (from 1), the propositions,
  the gap hints of the last coverage report, the tasks and outcomes of the round, and
  whether the dispatcher failed or finalization was forced. The last two fields count
  the submissions reviewed and the revisions requested since the session began.
\<close>

record coordinator =
  phase :: phase
  round_no :: nat
  propositions :: "Proposition list"
  gap_hints :: "coverage option"
  round_tasks :: "task list"
  round_outcomes :: "task_outcome list"
  dispatch_failed :: bool
  forced_finalize :: bool
  reviews_done :: nat
  revisions_done :: nat

text \<open>Modelled from the spec: the start of round 1 in \<open>PLANNING\<close> (section 4.5), absent from the code.\<close>

definition start :: "Proposition list \<Rightarrow> coordinator" where
  "start ps =
     \<lparr>phase = PLANNING, round_no = 1, propositions = ps, gap_hints = None,
      round_tasks = [], round_outcomes = [], dispatch_failed = False,
      forced_finalize = False, reviews_done = 0, revisions_done = 0\<rparr>"

text \<open>
  Modelled from the spec: the transition rules of the Round Coordinator (section 4.5)
  with the dispatcher's failure on an empty proposition set (section 4.3), absent from
  the code. A dispatcher that fails or returns no task finalizes at once; the wait for
  reviews runs every task's cycle to its terminal state (the join of section 5);
  aggregation continues while coverage is open and the round number is below the cap.
\<close>

definition step :: "config \<Rightarrow> parts \<Rightarrow> coordinator \<Rightarrow> coordinator" where
  "step cfg env s =
     (case phase s of
        PLANNING \<Rightarrow>
          (case (if propositions s = [] then Inl DispatchError
                 else planRound env (propositions s) (round_no s) (gap_hints s)) of
             Inl e \<Rightarrow> s\<lparr>phase := FINALIZING, dispatch_failed := True\<rparr>
           | Inr ts \<Rightarrow>
               if ts = [] then s\<lparr>phase := FINALIZING, dispatch_failed := True\<rparr>
               else s\<lparr>phase := DISPATCHED, round_tasks := ts, round_outcomes := []\<rparr>)
      | DISPATCHED \<Rightarrow> s\<lparr>phase := AWAITING_REVIEWS\<rparr>
      | AWAITING_REVIEWS \<Rightarrow>
          (let outcomes =
                 map (\<lambda>t. review_cycle (revisionCap cfg) (execute env) (supervise env)
                             (t\<lparr>status := SUBMITTED\<rparr>) 0 [] [])
                     (round_tasks s)
           in s\<lparr>phase := AGGREGATING, round_outcomes := outcomes,
                 reviews_done := reviews_done s + sum_list (map (\<lambda>out. length (submissions out)) outcomes),
                 revisions_done := revisions_done s + sum_list (map revision_count outcomes)\<rparr>)
      | AGGREGATING \<Rightarrow>
          (let ps = recordFindings env (propositions s) (round_outcomes s);
               report = coverageReport env ps;
               open_gaps = (unresolved report \<noteq> [] \<or> conflicting report \<noteq> [])
           in if open_gaps \<and> round_no s < roundCap cfg
              then s\<lparr>phase := CONTINUE, propositions := ps, gap_hints := Some report\<rparr>
              else s\<lparr>phase := FINALIZING, propositions := ps, gap_hints := Some report,
                     forced_finalize := open_gaps\<rparr>)
      | CONTINUE \<Rightarrow>
          s\<lparr>phase := PLANNING, round_no := Suc (round_no s), round_tasks := [],
            round_outcomes := []\<rparr>
      | FINALIZING \<Rightarrow> s)"


text \<open>
  Modelled from the spec: \<open>extract\<close> of the Proposition Tracker (section 4.2), absent
  from the code: an empty claim text is an \<open>ExtractionError\<close>, and at most five of the
  decomposer's propositions are kept.
\<close>

definition extract_propositions :: "parts \<Rightarrow> string \<Rightarrow> session_error + Proposition list" where
  "extract_propositions env claim_text =
     (if claim_text = [] then Inl ExtractionError else Inr (take 5 (decompose env claim_text)))"

text \<open>Modelled from the spec: what \<open>getResult\<close> of the Orchestrator Facade returns (section 4.6), absent from the code; a terminal report holds the overall verdict, the verdict of each proposition and the caveats.\<close>

datatype result =
    TerminalReport verdict "(nat \<times> verdict) list" "string list"
  | Pending
  | Error session_error

text \<open>
  Modelled from the spec: the caveats of a terminal report (section 7: exhausted caps
  surface as a caveat or flag), absent from the code.
\<close>

definition caveats :: "coordinator \<Rightarrow> string list" where
  "caveats s =
     (if dispatch_failed s then [''dispatch failed''] else []) @
     (if forced_finalize s then [''round cap reached with open gaps''] else []) @
     (if list_ex (\<lambda>out. case terminal_verdict out of APPROVE_WITH_CAVEAT left \<Rightarrow> True | _ \<Rightarrow> False)
          (round_outcomes s)
      then [''approved with caveat''] else [])"

text \<open>
  Modelled from the spec: the Orchestrator Facade run to its result (sections 4.5, 4.6
  and 7), absent from the code. The coordinator steps until it reaches \<open>FINALIZING\<close>;
  a run that never does is \<open>Pending\<close>. Finalization takes the verdicts from
  \<open>finalVerdict\<close>, and a failed dispatch finalizes with \<open>UNDETERMINED\<close>.
\<close>

definition getResult :: "config \<Rightarrow> parts \<Rightarrow> string \<Rightarrow> result" where
  "getResult cfg env claim_text =
     (case extract_propositions env claim_text of
        Inl e \<Rightarrow> Error e
      | Inr ps \<Rightarrow>
          (case while_option (\<lambda>s. phase s \<noteq> FINALIZING) (step cfg env) (start ps) of
             None \<Rightarrow> Pending
           | Some s \<Rightarrow>
               TerminalReport
                 (if dispatch_failed s then UNDETERMINED else fst (finalVerdict (propositions s)))
                 (snd (finalVerdict (propositions s)))
                 (caveats s)))"

text \<open>
  Collaborators for examples: one proposition per sentence given, five tasks a round,
  a worker that cites one source, a supervisor that always asks for a revision, and a
  tracker that never resolves.
\<close>

definition stubborn_parts :: parts where
  "stubborn_parts =
     \<lparr>decompose = (\<lambda>c. [\<lparr>proposition_id = 1, proposition_text = c,
                           proposition_verdict = PENDING, evidence_refs = []\<rparr>]),
      planRound = (\<lambda>ps r hints.
         Inr (map (\<lambda>k. \<lparr>task_id = k, round_number = r, worker_slot = k,
                           task_text = ''check'', status = ASSIGNED\<rparr>) [1, 2, 3, 4, 5])),
      execute = (\<lambda>t issues. \<lparr>short_answer = ''yes'', findings = ''none'', evidence = []\<rparr>),
      supervise = (\<lambda>s. REVISE [''more sources'']),
      recordFindings = (\<lambda>ps outs. ps),
      coverageReport = (\<lambda>ps. \<lparr>covered = [], conflicting = [], unresolved = map proposition_id ps\<rparr>)\<rparr>"





text \<open>Values for examples: a proposition with a given verdict, a submission without sources, a task.\<close>

definition settled :: "nat \<Rightarrow> verdict \<Rightarrow> Proposition" where
  "settled n v =
     \<lparr>proposition_id = n, proposition_text = ''p'', proposition_verdict = v, evidence_refs = []\<rparr>"

definition thin_submission :: submission where
  "thin_submission = \<lparr>short_answer = ''yes'', findings = ''none'', evidence = []\<rparr>"

definition first_task :: task where
  "first_task =
     \<lparr>task_id = 1, round_number = 1, worker_slot = 1, task_text = ''check'', status = ASSIGNED\<rparr>"

section \<open>Properties of \<open>get_mime_type\<close>\<close>

lemma split_not_Nil: "split sep s \<noteq> []"
  by (induction s) auto

lemma split_tl_Nil: "(tl (split sep s) = []) = (sep \<notin> set s)"
  using split_not_Nil [of sep] by (induction s) auto

lemma last_split: "last (split sep s) = rev (takeWhile (\<lambda>c. c \<noteq> sep) (rev s))"
proof (induction s)
  case Nil
  show ?case by simp
next
  case (Cons c cs)
  show ?case
  proof (cases "c = sep")
    case True
    then show ?thesis
      using Cons split_not_Nil [of sep cs] by (auto simp: takeWhile_append)
  next
    case differs: False
    show ?thesis
    proof (cases "sep \<in> set cs")
      case True
      then have "tl (split sep cs) \<noteq> []"
        by (simp add: split_tl_Nil)
      then show ?thesis
        using Cons differs True by (auto simp: takeWhile_append last_tl)
    next
      case absent: False
      then have t: "tl (split sep cs) = []"
        by (simp add: split_tl_Nil)
      have h: "last (split sep cs) = hd (split sep cs)"
        using t split_not_Nil [of sep cs] by (cases "split sep cs") auto
      have k: "takeWhile (\<lambda>c. c \<noteq> sep) (rev cs) = rev cs"
        using absent by (auto simp: takeWhile_eq_all_conv)
      show ?thesis
        using Cons differs absent t h k by (auto simp: takeWhile_append)
    qed
  qed
qed

lemma index_last_split: "index_last (split CHR ''.'' s) = Inr (after_last_dot s)"
  using split_not_Nil [of "CHR ''.''" s]
  by (cases "split CHR ''.'' s") (auto simp: index_last_def after_last_dot_def last_split [symmetric])

text \<open>
  C10 (amended). Both functions named \<open>get_mime_type\<close> return a value for every file
  name and raise nothing. With \<open>ext\<close> the lowercased text after the last dot (the whole
  name when there is no dot), both return \<open>image/jpeg\<close> for \<open>jpg\<close> and \<open>jpeg\<close>,
  \<open>image/png\<close> for \<open>png\<close> and \<open>application/octet-stream\<close> for everything outside the
  five audio extensions. For \<open>wav\<close>, \<open>mp3\<close>, \<open>flac\<close>, \<open>m4a\<close> and \<open>webm\<close> the function of
  \<open>single_agent.py\<close> returns the fixed string \<open>audio/wav\<close>, while the one of
  \<open>single_as_multi\<close> returns \<open>audio/\<close> followed by the extension.
\<close>

theorem get_mime_type_by_extension:
  "get_mime_type name =
     Inr (let ext = lower (after_last_dot name) in
          if ext = ''jpg'' \<or> ext = ''jpeg'' then ''image/jpeg''
          else if ext = ''png'' then ''image/png''
          else if ext = ''wav'' \<or> ext = ''mp3'' \<or> ext = ''flac'' \<or> ext = ''m4a'' \<or> ext = ''webm''
            then ''audio/wav''
          else ''application/octet-stream'')
   \<and> get_mime_type_single_as_multi name =
     Inr (let ext = lower (after_last_dot name) in
          if ext = ''jpg'' \<or> ext = ''jpeg'' then ''image/jpeg''
          else if ext = ''png'' then ''image/png''
          else if ext = ''wav'' \<or> ext = ''mp3'' \<or> ext = ''flac'' \<or> ext = ''m4a'' \<or> ext = ''webm''
            then ''audio/'' @ ext
          else ''application/octet-stream'')"
  by (simp add: get_mime_type_def get_mime_type_single_as_multi_def index_last_split Let_def)

text \<open>
  C10 as stated fails for the \<open>get_mime_type\<close> of \<open>single_as_multi\<close>: an \<open>mp3\<close> name is
  not mapped to \<open>audio/wav\<close>.
\<close>

theorem get_mime_type_audio_counterexample:
  "get_mime_type_single_as_multi ''voice.mp3'' = Inr ''audio/mp3''
   \<and> get_mime_type_single_as_multi ''voice.mp3'' \<noteq> Inr ''audio/wav''"
  by code_simp

section \<open>The system prompt is a module global\<close>

lemma generate_requests_append:
  "generate_requests (xs @ ys) = generate_requests xs @ generate_requests ys"
  by (induction xs rule: generate_requests.induct) auto

lemma delete_uploaded_no_request:
  "delete_uploaded c u = (ds, r) \<Longrightarrow> generate_requests ds = []"
  by (cases u) (auto simp: delete_uploaded_def)

lemma gemini_handlers_no_request:
  "gemini_handlers c u e = (ds, r) \<Longrightarrow> generate_requests ds = []"
  by (auto simp: gemini_handlers_def split: prod.splits option.splits if_splits
           dest: delete_uploaded_no_request)

lemma call_gemini_request:
  "call_gemini g c parts up u = (cs, r) \<Longrightarrow>
     map system_instruction (generate_requests cs) = [SYSTEM_PROMPT g]"
  by (auto simp: call_gemini_def Let_def generate_requests_append
           split: sum.splits option.splits prod.splits
           dest: delete_uploaded_no_request gemini_handlers_no_request)

lemma check_scam_report_requests:
  "map system_instruction (generate_requests (fst (check_scam_report g text file)))
     \<in> {[], [SYSTEM_PROMPT g]}"
proof (cases "check_scam_report g text file")
  case (Pair cs r)
  then have "map system_instruction (generate_requests cs) = [] \<or>
             map system_instruction (generate_requests cs) = [SYSTEM_PROMPT g]"
    unfolding check_scam_report_def Let_def
    by (auto split: option.splits sum.splits prod.splits if_splits dest: call_gemini_request)
  with Pair show ?thesis by auto
qed

lemma check_scam_report_text_only:
  "fst (check_scam_report (g\<lparr>client := Some c\<rparr>) (Some (x # t)) None) =
     [GenerateContent \<lparr>model = MODEL_NAME,
        contents = [TextPart (x # t),
                    TextPart (''<report request>'' @ ''<text content>: '' @ (x # t) @ [CHR 0x0A])],
        system_instruction = SYSTEM_PROMPT g, temperature = 2 / 10\<rparr>]"
  by (auto simp: check_scam_report_def call_gemini_def gemini_handlers_def delete_uploaded_def
        truthy_def Let_def split: sum.splits option.splits)

lemma update_prompt_state: "fst (update_prompt g p) = g\<lparr>SYSTEM_PROMPT := p\<rparr>"
  by (simp add: update_prompt_def Let_def)

lemma call_gemini_requests:
  "call_gemini g c parts up u = (cs, r) \<Longrightarrow>
     generate_requests cs =
       [\<lparr>model = MODEL_NAME, contents = parts @ [TextPart up],
         system_instruction = SYSTEM_PROMPT g, temperature = 2 / 10\<rparr>]"
  by (auto simp: call_gemini_def Let_def generate_requests_append
           split: sum.splits option.splits prod.splits
           dest: delete_uploaded_no_request gemini_handlers_no_request)

lemma call_gemini_requests_fst:
  "generate_requests (fst (call_gemini g c parts up u)) =
       [\<lparr>model = MODEL_NAME, contents = parts @ [TextPart up],
         system_instruction = SYSTEM_PROMPT g, temperature = 2 / 10\<rparr>]"
  by (cases "call_gemini g c parts up u") (simp add: call_gemini_requests)

lemma two_runs:
  "generate_requests (fst (check_scam_report (g\<lparr>SYSTEM_PROMPT := p\<rparr>) msg upload)) =
     map (\<lambda>r. r\<lparr>system_instruction := p\<rparr>)
       (generate_requests (fst (check_scam_report g msg upload)))
   \<and> (generate_requests (fst (check_scam_report g msg upload)) = [] \<longrightarrow>
        check_scam_report (g\<lparr>SYSTEM_PROMPT := p\<rparr>) msg upload = check_scam_report g msg upload)"
proof (cases "client g")
  case None
  then show ?thesis by (simp add: check_scam_report_def)
next
  case present: (Some c)
  show ?thesis
  proof (cases "\<not> truthy msg \<and> upload = None")
    case True
    then show ?thesis using present by (simp add: check_scam_report_def)
  next
    case content: False
    show ?thesis
    proof (cases upload)
      case None
      then show ?thesis using present content
        by (simp add: check_scam_report_def Let_def call_gemini_requests_fst)
    next
      case (Some f)
      show ?thesis
      proof (cases "get_mime_type (filename f)")
        case (Inl e)
        then show ?thesis using present content Some
          by (simp add: check_scam_report_def Let_def)
      next
        case (Inr mime_type)
        show ?thesis
        proof (cases "length (file_bytes f) > MAX_FILE_BYTES")
          case True
          then show ?thesis using present content Some Inr
            by (simp add: check_scam_report_def Let_def)
        next
          case small: False
          show ?thesis
          proof (cases "startswith mime_type ''image/''")
            case True
            show ?thesis
            proof (cases "open_and_upload_image c (file_bytes f)")
              case (Inl e)
              then show ?thesis using present content Some Inr small True
                by (simp add: check_scam_report_def Let_def)
            next
              case stored: (Inr name)
              then show ?thesis using present content Some Inr small True
                by (simp add: check_scam_report_def Let_def case_prod_beta call_gemini_requests_fst)
            qed
          next
            case no_image: False
            show ?thesis
            proof (cases "startswith mime_type ''audio/''")
              case True
              show ?thesis
              proof (cases "upload_audio c (file_bytes f) mime_type")
                case (Inl e)
                then show ?thesis using present content Some Inr small no_image True
                  by (simp add: check_scam_report_def Let_def)
              next
                case stored: (Inr name)
                then show ?thesis using present content Some Inr small no_image True
                  by (simp add: check_scam_report_def Let_def case_prod_beta call_gemini_requests_fst)
              qed
            next
              case False
              then show ?thesis using present content Some Inr small no_image
                by (simp add: check_scam_report_def Let_def)
            qed
          qed
        qed
      qed
    qed
  qed
qed

text \<open>
  C9 (amended). The system prompt is a global of the module that \<open>update_prompt\<close>
  overwrites (the client is left alone), and \<open>check_scam_report\<close> reads it when it
  builds the model request: a run makes at most one model request, whose system
  instruction is the value the global holds at that moment; for a request with a
  non-empty text and no file, and a client in place, that request is made. Of two runs
  on the same input with \<open>update_prompt p\<close> between them, the later one makes the
  model requests of the earlier one with the system instruction replaced by \<open>p\<close>. The
  two runs are the same when the earlier one makes no model request (it is refused
  before the model is called) and when \<open>p\<close> is the prompt already set; otherwise the
  later run works with \<open>p\<close>, whoever set it.
\<close>

theorem check_scam_report_reads_global_prompt:
  "SYSTEM_PROMPT (fst (update_prompt g p)) = p
   \<and> client (fst (update_prompt g p)) = client g
   \<and> map system_instruction (generate_requests (fst (check_scam_report g msg upload)))
       \<in> {[], [SYSTEM_PROMPT g]}
   \<and> fst (check_scam_report (g\<lparr>client := Some c\<rparr>) (Some (x # t)) None) =
       [GenerateContent \<lparr>model = MODEL_NAME,
          contents = [TextPart (x # t),
                      TextPart (''<report request>'' @ ''<text content>: '' @ (x # t) @ [CHR 0x0A])],
          system_instruction = SYSTEM_PROMPT g, temperature = 2 / 10\<rparr>]
   \<and> generate_requests (fst (check_scam_report (fst (update_prompt g p)) msg upload)) =
       map (\<lambda>r. r\<lparr>system_instruction := p\<rparr>)
         (generate_requests (fst (check_scam_report g msg upload)))
   \<and> (generate_requests (fst (check_scam_report g msg upload)) = [] \<longrightarrow>
        check_scam_report (fst (update_prompt g p)) msg upload = check_scam_report g msg upload)
   \<and> check_scam_report (fst (update_prompt g (SYSTEM_PROMPT g))) msg upload =
       check_scam_report g msg upload"
  using check_scam_report_requests [of g msg upload] check_scam_report_text_only [of c g x t]
    two_runs [where g = g and p = p and msg = msg and upload = upload]
  by (simp add: update_prompt_def Let_def)

text \<open>A request without text and file is refused, before and after a prompt update, in the same way.\<close>

theorem check_scam_report_reads_global_prompt_witness:
  "generate_requests (fst (check_scam_report
      \<lparr>client = Some echo_client, SYSTEM_PROMPT = ''A''\<rparr> None None)) = []
   \<and> check_scam_report
        (fst (update_prompt \<lparr>client = Some echo_client, SYSTEM_PROMPT = ''A''\<rparr> ''B'')) None None =
      check_scam_report \<lparr>client = Some echo_client, SYSTEM_PROMPT = ''A''\<rparr> None None"
proof -
  have refused: "generate_requests (fst (check_scam_report
      \<lparr>client = Some echo_client, SYSTEM_PROMPT = ''A''\<rparr> None None)) = []"
    by (simp add: check_scam_report_def truthy_def)
  with check_scam_report_reads_global_prompt
         [of "\<lparr>client = Some echo_client, SYSTEM_PROMPT = ''A''\<rparr>" "''B''" None None]
  show ?thesis by blast
qed

text \<open>
  C9 as stated fails: two runs on the same text, with a prompt update between them,
  answer differently (the client of the example returns the system instruction it was
  given).
\<close>

theorem prompt_update_changes_later_run:
  "snd (check_scam_report \<lparr>client = Some echo_client, SYSTEM_PROMPT = ''A''\<rparr>
          (Some ''hi'') None) = Inr ''A''
   \<and> snd (check_scam_report
            (fst (update_prompt \<lparr>client = Some echo_client, SYSTEM_PROMPT = ''A''\<rparr> ''B''))
            (Some ''hi'') None) = Inr ''B''"
  by (simp add: check_scam_report_def call_gemini_def delete_uploaded_def truthy_def
        echo_client_def update_prompt_def Let_def strip_def isspace_def)

section \<open>The reply parser of \<open>single_as_multi\<close>\<close>









lemma outer_handlers_500: "\<exists>d. outer_handlers e = HTTPException 500 d"
  by (simp add: outer_handlers_def)




section \<open>Requests with an empty text\<close>

lemma fraud_back_end_nothing_sent:
  "check_scam_report_fraud_back_end rt None None = ([], Inl (HTTPException 400 NoContentProvided))"
  "check_scam_report_fraud_back_end rt (Some []) None =
     ([], Inl (HTTPException 400 NoContentProvided))"
  by (simp_all add: check_scam_report_fraud_back_end_def truthy_def)

lemma fraud_back_end_placeholder:
  "check_scam_report_fraud_back_end rt None (Some m) =
     check_scam_report_fraud_back_end rt (Some NO_TEXT_CLAIM) (Some m)"
  "check_scam_report_fraud_back_end rt (Some []) (Some m) =
     check_scam_report_fraud_back_end rt (Some NO_TEXT_CLAIM) (Some m)"
  by (simp_all add: check_scam_report_fraud_back_end_def truthy_def NO_TEXT_CLAIM_def)

lemma single_agent_nothing_sent:
  "check_scam_report (g\<lparr>client := Some c\<rparr>) None None =
     ([], Inl (HTTPException 400 NoContentProvided))"
  "check_scam_report (g\<lparr>client := Some c\<rparr>) (Some []) None =
     ([], Inl (HTTPException 400 NoContentProvided))"
  by (simp_all add: check_scam_report_def truthy_def)

text \<open>
  C4 (amended). A request whose text is empty or absent and that carries no media file
  is refused with a 400 before anything is called (no upload is written, no agent or
  model request is made), and no report is returned; this holds for the endpoint of
  \<open>fraud_back-end\<close> and, with a client in place, for the one of \<open>single_agent\<close>. With a
  media file, \<open>fraud_back-end\<close> treats an empty or absent text exactly as the fixed
  placeholder text: the request runs on and ends as that request ends.
\<close>

theorem empty_text_refused_only_without_media:
  "check_scam_report_fraud_back_end rt None None =
     ([], Inl (HTTPException 400 NoContentProvided))
   \<and> check_scam_report_fraud_back_end rt (Some []) None =
     ([], Inl (HTTPException 400 NoContentProvided))
   \<and> check_scam_report_fraud_back_end rt None (Some m) =
     check_scam_report_fraud_back_end rt (Some NO_TEXT_CLAIM) (Some m)
   \<and> check_scam_report_fraud_back_end rt (Some []) (Some m) =
     check_scam_report_fraud_back_end rt (Some NO_TEXT_CLAIM) (Some m)
   \<and> check_scam_report (g\<lparr>client := Some c\<rparr>) None None =
     ([], Inl (HTTPException 400 NoContentProvided))
   \<and> check_scam_report (g\<lparr>client := Some c\<rparr>) (Some []) None =
     ([], Inl (HTTPException 400 NoContentProvided))"
  by (simp add: fraud_back_end_nothing_sent fraud_back_end_placeholder single_agent_nothing_sent)

text \<open>
  C4 as stated fails: an empty text sent with a screenshot is posted to the agent
  service under the placeholder claim, and the service's report is returned.
\<close>

theorem empty_text_with_media_gets_report:
  "check_scam_report_fraud_back_end obliging_runtime (Some []) (Some screenshot) =
     ([StoreFile ''temp_uploads/00112233aabbccdd.png'',
       PostAgent \<lparr>system_prompt = ''<manager system prompt>'',
         user_prompt =
           ''<task from the boss>'' @ ''[CLAIM FROM BOSS]'' @ [CHR 0x0A] @ NO_TEXT_CLAIM @
           [CHR 0x0A, CHR 0x0A] @ ''[SUPPLEMENTAL MEDIA DATA]'' @ [CHR 0x0A]\<rparr>],
      Inr (JStr ''# Report''))"
  by (simp add: check_scam_report_fraud_back_end_def truthy_def describe_upload_def
        obliging_runtime_def screenshot_def then_do_def index_last_def describe_media_def
        detect_media_type_def startswith_def genai_hub_digissl_describe_def
        call_agent_system_def get_manager_agent_prompts_def Let_def)

section \<open>The review gate and the revision cap\<close>

lemma review_REVISE_below_cap:
  "review cap reviewer revisions s = REVISE left \<Longrightarrow> revisions < cap"
  by (auto simp: review_def Let_def split: review_verdict.splits if_splits)

lemma review_cycle_outcome:
  "revisions \<le> cap \<Longrightarrow>
     (let out = review_cycle cap worker reviewer t revisions issues history in
        revisions \<le> revision_count out \<and> revision_count out \<le> cap \<and>
        length (submissions out) = length history + (revision_count out - revisions) + 1 \<and>
        status (final_task out) = APPROVED \<and>
        (case terminal_verdict out of REVISE left \<Rightarrow> False | _ \<Rightarrow> True))"
proof (induction cap worker reviewer t revisions issues history rule: review_cycle.induct)
  case (1 cap worker reviewer t revisions issues history)
  show ?case
  proof (cases "review cap reviewer revisions (worker t issues)")
    case (APPROVE digest)
    then show ?thesis using "1.prems" by (simp add: Let_def)
  next
    case (REVISE left)
    then have below: "revisions < cap" by (rule review_REVISE_below_cap)
    then have "Suc revisions \<le> cap" by simp
    from "1.IH" [OF REVISE this] REVISE show ?thesis
      by (auto simp: Let_def)
  next
    case (APPROVE_WITH_CAVEAT left)
    then show ?thesis using "1.prems" by (simp add: Let_def)
  qed
qed



lemma getResult_cases:
  "getResult cfg env claim_text = Error e \<Longrightarrow> e = ExtractionError"
  by (auto simp: getResult_def extract_propositions_def split: if_splits option.splits)

text \<open>
  C6. In the protocol of the specification, a request for revision by the reviewing
  collaborator on a task whose revision count has reached the cap is overridden by the
  gate to \<open>APPROVE_WITH_CAVEAT\<close>, which carries the issues (those of the protocol
  checks, then those of the collaborator). So the cycle of a task ends, with at most
  \<open>cap\<close> revisions and a verdict that is not \<open>REVISE\<close>, and the facade never
  returns the error \<open>RevisionCapExceeded\<close>.
\<close>

theorem review_gate_forces_approval_at_cap:
  assumes "cap \<le> revisions" and "reviewer s = REVISE found"
  shows "review cap reviewer revisions s = APPROVE_WITH_CAVEAT (protocol_issues s @ found)
       \<and> revision_count (review_cycle cap worker reviewer t 0 [] []) \<le> cap
       \<and> (case terminal_verdict (review_cycle cap worker reviewer t 0 [] []) of
            REVISE left \<Rightarrow> False | _ \<Rightarrow> True)
       \<and> getResult cfg env claim_text \<noteq> Error RevisionCapExceeded"
  using assms review_cycle_outcome [of 0 cap worker reviewer t "[]" "[]"] getResult_cases [of cfg env claim_text RevisionCapExceeded]
  by (auto simp: review_def Let_def)

text \<open>The gate at the default cap of two revisions, with a supervisor that always asks for more.\<close>

theorem review_gate_forces_approval_at_cap_witness:
  "(2::nat) \<le> 2 \<and> supervise stubborn_parts thin_submission = REVISE [''more sources'']
   \<and> review 2 (supervise stubborn_parts) 2 thin_submission
       = APPROVE_WITH_CAVEAT [''fewer than two sources'', ''more sources'']
   \<and> revision_count (review_cycle 2 (execute stubborn_parts) (supervise stubborn_parts) first_task 0 [] []) \<le> 2
   \<and> getResult default_config stubborn_parts ''claim'' \<noteq> Error RevisionCapExceeded"
proof -
  have a: "(2::nat) \<le> 2" by simp
  have b: "supervise stubborn_parts thin_submission = REVISE [''more sources'']"
    by (simp add: stubborn_parts_def)
  show ?thesis
    using a b review_gate_forces_approval_at_cap [where cap = 2 and revisions = 2 and reviewer = "supervise stubborn_parts"
        and s = thin_submission and found = "[''more sources'']"
        and worker = "execute stubborn_parts" and t = first_task and cfg = default_config
        and env = stubborn_parts and claim_text = "''claim''"]
    by (simp add: protocol_issues_def thin_submission_def)
qed

section \<open>The round coordinator finalizes\<close>









section \<open>The aggregation rule\<close>

lemma verdicts_all:
  "list_all (\<lambda>v. v = x) (map proposition_verdict ps) = (\<forall>p \<in> set ps. proposition_verdict p = x)"
  by (simp add: list_all_iff)

lemma verdicts_ex:
  "list_ex (\<lambda>v. v = x) (map proposition_verdict ps) = (\<exists>p \<in> set ps. proposition_verdict p = x)"
  by (auto simp: list_ex_iff)

lemma finalVerdict_overall:
  "fst (finalVerdict ps) =
     (if \<forall>p \<in> set ps. proposition_verdict p = TRUE then TRUE
      else if \<exists>p \<in> set ps. proposition_verdict p = FALSE then FALSE
      else if (\<exists>p \<in> set ps. proposition_verdict p = TRUE) \<and>
              (\<exists>p \<in> set ps. proposition_verdict p = UNDETERMINED) then MIXED
      else UNDETERMINED)"
  by (simp add: finalVerdict_def Let_def verdicts_all verdicts_ex)

lemma finalVerdict_pure:
  "map proposition_verdict ps = map proposition_verdict qs \<Longrightarrow>
     fst (finalVerdict ps) = fst (finalVerdict qs)"
  by (simp add: finalVerdict_def Let_def)

text \<open>
  C1. In the protocol of the specification, the overall verdict of \<open>finalVerdict\<close> is a
  function of the propositions' verdicts alone: \<open>TRUE\<close> when every verdict is \<open>TRUE\<close>;
  \<open>FALSE\<close> when some verdict is \<open>FALSE\<close>; \<open>MIXED\<close> when \<open>TRUE\<close> and \<open>UNDETERMINED\<close> both
  occur and \<open>FALSE\<close> does not; \<open>UNDETERMINED\<close> in every other case. The four cases
  exclude one another, so the order of the rule does not matter. The second component
  lists each proposition's verdict.
\<close>

theorem finalVerdict_follows_rule:
  "((\<forall>p \<in> set ps. proposition_verdict p = TRUE) \<longrightarrow> fst (finalVerdict ps) = TRUE)
   \<and> ((\<exists>p \<in> set ps. proposition_verdict p = FALSE) \<longrightarrow> fst (finalVerdict ps) = FALSE)
   \<and> ((\<exists>p \<in> set ps. proposition_verdict p = TRUE) \<and>
       (\<exists>p \<in> set ps. proposition_verdict p = UNDETERMINED) \<and>
       \<not> (\<exists>p \<in> set ps. proposition_verdict p = FALSE) \<longrightarrow> fst (finalVerdict ps) = MIXED)
   \<and> (\<not> (\<forall>p \<in> set ps. proposition_verdict p = TRUE) \<and>
       \<not> (\<exists>p \<in> set ps. proposition_verdict p = FALSE) \<and>
       \<not> ((\<exists>p \<in> set ps. proposition_verdict p = TRUE) \<and>
           (\<exists>p \<in> set ps. proposition_verdict p = UNDETERMINED))
       \<longrightarrow> fst (finalVerdict ps) = UNDETERMINED)
   \<and> (map proposition_verdict ps = map proposition_verdict qs \<longrightarrow>
        fst (finalVerdict ps) = fst (finalVerdict qs))
   \<and> snd (finalVerdict ps) = map (\<lambda>p. (proposition_id p, proposition_verdict p)) ps"
proof (intro conjI impI)
  assume "\<forall>p \<in> set ps. proposition_verdict p = TRUE"
  then show "fst (finalVerdict ps) = TRUE" by (simp add: finalVerdict_overall)
next
  assume f: "\<exists>p \<in> set ps. proposition_verdict p = FALSE"
  then have "\<not> (\<forall>p \<in> set ps. proposition_verdict p = TRUE)" by fastforce
  with f show "fst (finalVerdict ps) = FALSE" by (simp add: finalVerdict_overall)
next
  assume m: "(\<exists>p \<in> set ps. proposition_verdict p = TRUE) \<and>
       (\<exists>p \<in> set ps. proposition_verdict p = UNDETERMINED) \<and>
       \<not> (\<exists>p \<in> set ps. proposition_verdict p = FALSE)"
  then have "\<not> (\<forall>p \<in> set ps. proposition_verdict p = TRUE)" by fastforce
  with m show "fst (finalVerdict ps) = MIXED" by (simp add: finalVerdict_overall)
next
  assume "\<not> (\<forall>p \<in> set ps. proposition_verdict p = TRUE) \<and>
       \<not> (\<exists>p \<in> set ps. proposition_verdict p = FALSE) \<and>
       \<not> ((\<exists>p \<in> set ps. proposition_verdict p = TRUE) \<and>
           (\<exists>p \<in> set ps. proposition_verdict p = UNDETERMINED))"
  then show "fst (finalVerdict ps) = UNDETERMINED" by (simp add: finalVerdict_overall)
next
  assume "map proposition_verdict ps = map proposition_verdict qs"
  then show "fst (finalVerdict ps) = fst (finalVerdict qs)" by (rule finalVerdict_pure)
next
  show "snd (finalVerdict ps) = map (\<lambda>p. (proposition_id p, proposition_verdict p)) ps"
    by (simp add: finalVerdict_def Let_def)
qed

text \<open>One session for each case of the rule, and two sessions with the same verdicts.\<close>

theorem finalVerdict_follows_rule_witness:
  "fst (finalVerdict [settled 1 TRUE, settled 2 TRUE, settled 3 TRUE]) = TRUE
   \<and> fst (finalVerdict [settled 1 TRUE, settled 2 FALSE, settled 3 UNDETERMINED]) = FALSE
   \<and> fst (finalVerdict [settled 1 TRUE, settled 2 UNDETERMINED]) = MIXED
   \<and> fst (finalVerdict [settled 1 UNDETERMINED, settled 2 PENDING]) = UNDETERMINED
   \<and> fst (finalVerdict [settled 1 TRUE, settled 2 UNDETERMINED]) =
       fst (finalVerdict [settled 7 TRUE, settled 8 UNDETERMINED])"
proof -
  have a: "fst (finalVerdict [settled 1 TRUE, settled 2 TRUE, settled 3 TRUE]) = TRUE"
    using finalVerdict_follows_rule [of "[settled 1 TRUE, settled 2 TRUE, settled 3 TRUE]" "[]"]
    by (simp add: settled_def)
  have b: "fst (finalVerdict [settled 1 TRUE, settled 2 FALSE, settled 3 UNDETERMINED]) = FALSE"
    using finalVerdict_follows_rule [of "[settled 1 TRUE, settled 2 FALSE, settled 3 UNDETERMINED]" "[]"]
    by (simp add: settled_def)
  have c: "fst (finalVerdict [settled 1 TRUE, settled 2 UNDETERMINED]) = MIXED"
    using finalVerdict_follows_rule [of "[settled 1 TRUE, settled 2 UNDETERMINED]" "[]"]
    by (simp add: settled_def)
  have e: "fst (finalVerdict [settled 1 TRUE, settled 2 UNDETERMINED]) =
       fst (finalVerdict [settled 7 TRUE, settled 8 UNDETERMINED])"
  proof -
    have "map proposition_verdict [settled 1 TRUE, settled 2 UNDETERMINED] =
          map proposition_verdict [settled 7 TRUE, settled 8 UNDETERMINED]"
      by (simp add: settled_def)
    with finalVerdict_follows_rule [of "[settled 1 TRUE, settled 2 UNDETERMINED]"
               "[settled 7 TRUE, settled 8 UNDETERMINED]"]
    show ?thesis by blast
  qed
  have d: "fst (finalVerdict [settled 1 UNDETERMINED, settled 2 PENDING]) = UNDETERMINED"
    using finalVerdict_follows_rule [of "[settled 1 UNDETERMINED, settled 2 PENDING]" "[]"]
    by (simp add: settled_def)
  from a b c d e show ?thesis by blast
qed

end
